theory Spec2Isabelle
  imports Main "HOL-Library.Word"
begin

section \<open>The OpenPGP entity model of hockeypuck\<close>

text \<open>
  A shallow embedding of the package \<^verbatim>\<open>openpgp\<close> of \<^verbatim>\<open>src/settings/settings.go\<close>
  (from line 141 on): the five entities \<^verbatim>\<open>Pubkey\<close>, \<^verbatim>\<open>Signature\<close>, \<^verbatim>\<open>UserId\<close>,
  \<^verbatim>\<open>UserAttribute\<close> and \<^verbatim>\<open>Subkey\<close>, their packet accessors, the traversal
  \<^verbatim>\<open>Visit\<close>, the self-signature lookup and the image extraction.

  Conventions.
  \<^item> A Go \<^verbatim>\<open>string\<close> is a \<open>string\<close> (a list of byte-sized characters), a
    \<^verbatim>\<open>[]byte\<close> is a list of 8-bit words, a Go \<^verbatim>\<open>int\<close> is a 64-bit word, and a
    \<^verbatim>\<open>time.Time\<close> is its number of seconds since the epoch.
  \<^item> A method with a pointer receiver that assigns to the receiver's fields
    returns the receiver after the call next to its \<^verbatim>\<open>error\<close> result
    (\<open>None\<close> is \<^verbatim>\<open>nil\<close>).
  \<^item> A run-time panic is a value of type \<open>panic\<close>.
  \<^item> A slice of owned children (\<^verbatim>\<open>[]*Signature\<close>, \<^verbatim>\<open>[]*UserId\<close>, ...) is the list
    of the children; a pointer that only refers to a signature owned elsewhere
    (\<^verbatim>\<open>Revsig\<close>, the cached \<^verbatim>\<open>SelfSignature\<close> field) is the scoped digest of the
    signature it points to, \<open>None\<close> for \<^verbatim>\<open>nil\<close>.
\<close>

type_synonym byte = "8 word"
type_synonym time = int
type_synonym sig_ref = string

datatype error =
    ErrInvalidPacketType
  | InvalidPacketErr
  | InvalidPacketType
  | ErrMissingIssuerKeyId
  | ErrFingerprintMismatch
  | LibraryError string

datatype panic = SliceBoundsOutOfRange | InterfaceConversion

subsection \<open>The packet library\<close>

text \<open>
  The packages \<^verbatim>\<open>go.crypto/openpgp/packet\<close>, \<^verbatim>\<open>encoding/hex\<close> and
  \<^verbatim>\<open>encoding/binary\<close> are not part of the repository. A packet value is a record
  of the fields the entity model reads, with the rest of its contents kept
  opaque; the library's functions on packets are the fields of a record
  \<open>packet_lib\<close> that every operation using them takes as its first argument.
  \<^verbatim>\<open>packet.Read\<close> returns the pair of a packet (\<open>None\<close> is the \<^verbatim>\<open>nil\<close> interface)
  and an error, since \<^verbatim>\<open>GetPublicKey\<close> looks at the packet whatever the error
  is; the other functions return an error or a value that is read only when
  the error is \<^verbatim>\<open>nil\<close>.
\<close>

record packet_PublicKey =
  CreationTime :: time
  PubKeyAlgo :: "8 word"
  IsSubkey :: bool
  KeyMaterial :: "byte list"

record packet_Signature =
  SigType :: "8 word"
  CreationTime :: time
  SigLifetimeSecs :: "32 word option"
  IssuerKeyId :: "64 word option"
  SigMaterial :: "byte list"

record packet_UserId =
  Id :: string

record packet_OpaquePacket =
  Tag :: "8 word"
  Contents :: "byte list"

record packet_OpaqueSubpacket =
  SubType :: "8 word"
  Contents :: "byte list"

datatype packet_Packet =
    PublicKeyPacket packet_PublicKey
  | SignaturePacket packet_Signature
  | UserIdPacket packet_UserId
  | OpaquePacket packet_OpaquePacket
  | OtherPacket "byte list"

text \<open>
  \<open>Fingerprint\<close> and \<open>CleanUtf8\<close> are helpers of the repository whose code is not
  in the source file; the entity model only passes their results on, so they
  are taken as parameters next to the library's functions.
\<close>

record packet_lib =
  PublicKey_Serialize :: "packet_PublicKey \<Rightarrow> error + byte list"
  PublicKey_BitLength :: "packet_PublicKey \<Rightarrow> error + 16 word"
  Signature_Serialize :: "packet_Signature \<Rightarrow> error + byte list"
  UserId_Serialize :: "packet_UserId \<Rightarrow> error + byte list"
  OpaquePacket_Serialize :: "packet_OpaquePacket \<Rightarrow> error + byte list"
  Read :: "byte list \<Rightarrow> packet_Packet option \<times> error option"
  OpaqueReader_Next :: "byte list \<Rightarrow> error + packet_OpaquePacket"
  OpaqueSubpackets :: "byte list \<Rightarrow> error + packet_OpaqueSubpacket list"
  Fingerprint :: "packet_PublicKey \<Rightarrow> string"
  CleanUtf8 :: "string \<Rightarrow> string"

subsection \<open>Strings and slices\<close>

text \<open>
  Modelled from the spec: the function \<^verbatim>\<open>Reverse\<close> is called throughout the source
  file and defined nowhere in it. The spec (4.2) gives it as
  "\<^verbatim>\<open>reverse(s)\<close>: byte/char-order flip".
\<close>

definition Reverse :: "string \<Rightarrow> string" where
  "Reverse s = rev s"

text \<open>
  The Go slice expressions \<^verbatim>\<open>s[:n]\<close> and \<^verbatim>\<open>s[n:]\<close> panic when \<^verbatim>\<open>n\<close> exceeds the
  length of \<^verbatim>\<open>s\<close>.
\<close>

definition slice_to :: "'a list \<Rightarrow> nat \<Rightarrow> panic + 'a list" where
  "slice_to s n = (if n \<le> length s then Inr (take n s) else Inl SliceBoundsOutOfRange)"

definition slice_from :: "'a list \<Rightarrow> nat \<Rightarrow> panic + 'a list" where
  "slice_from s n = (if n \<le> length s then Inr (drop n s) else Inl SliceBoundsOutOfRange)"

subsection \<open>Entities\<close>

record Signature =
  ScopedDigest :: string
  Creation :: time
  Expiration :: time
  State :: "64 word"
  Packet :: "byte list"
  SigType :: "64 word"
  RIssuerKeyId :: string
  RIssuerFingerprint :: string
  RevsigDigest :: string
  Revsig :: "sig_ref option"

record UserId =
  ScopedDigest :: string
  Creation :: time
  Expiration :: time
  State :: "64 word"
  Packet :: "byte list"
  PubkeyRFP :: string
  Keywords :: string
  SelfSignature :: "sig_ref option"
  Signatures :: "Signature list"

record UserAttribute =
  ScopedDigest :: string
  Creation :: time
  Expiration :: time
  State :: "64 word"
  Packet :: "byte list"
  PubkeyRFP :: string
  SelfSignature :: "sig_ref option"
  Signatures :: "Signature list"

record Subkey =
  RFingerprint :: string
  Creation :: time
  Expiration :: time
  State :: "64 word"
  Packet :: "byte list"
  PubkeyRFP :: string
  RevsigDigest :: string
  Algorithm :: "64 word"
  BitLen :: "64 word"
  Signatures :: "Signature list"

record Pubkey =
  RFingerprint :: string
  Creation :: time
  Expiration :: time
  State :: "64 word"
  Packet :: "byte list"
  Ctime :: time
  Mtime :: time
  Md5 :: string
  Sha256 :: string
  RevsigDigest :: string
  Algorithm :: "64 word"
  BitLen :: "64 word"
  Signatures :: "Signature list"
  Subkeys :: "Subkey list"
  UserIds :: "UserId list"
  UserAttributes :: "UserAttribute list"
  Revsig :: "sig_ref option"

datatype PacketRecord =
    PubkeyRecord Pubkey
  | SignatureRecord Signature
  | UserIdRecord UserId
  | UserAttributeRecord UserAttribute
  | SubkeyRecord Subkey

subsection \<open>Fingerprint views\<close>

definition Pubkey_Fingerprint :: "Pubkey \<Rightarrow> string" where
  "Pubkey_Fingerprint pubkey = Reverse (Pubkey.RFingerprint pubkey)"

definition Pubkey_KeyId :: "Pubkey \<Rightarrow> panic + string" where
  "Pubkey_KeyId pubkey =
     (case slice_to (Pubkey.RFingerprint pubkey) 16 of
        Inl p \<Rightarrow> Inl p
      | Inr s \<Rightarrow> Inr (Reverse s))"

definition Pubkey_ShortId :: "Pubkey \<Rightarrow> panic + string" where
  "Pubkey_ShortId pubkey =
     (case slice_to (Pubkey.RFingerprint pubkey) 8 of
        Inl p \<Rightarrow> Inl p
      | Inr s \<Rightarrow> Inr (Reverse s))"

definition Subkey_Fingerprint :: "Subkey \<Rightarrow> string" where
  "Subkey_Fingerprint subkey = Reverse (Subkey.RFingerprint subkey)"

definition Subkey_KeyId :: "Subkey \<Rightarrow> panic + string" where
  "Subkey_KeyId subkey =
     (case slice_to (Subkey.RFingerprint subkey) 16 of
        Inl p \<Rightarrow> Inl p
      | Inr s \<Rightarrow> Inr (Reverse s))"

definition Subkey_ShortId :: "Subkey \<Rightarrow> panic + string" where
  "Subkey_ShortId subkey =
     (case slice_to (Subkey.RFingerprint subkey) 8 of
        Inl p \<Rightarrow> Inl p
      | Inr s \<Rightarrow> Inr (Reverse s))"

definition Signature_IssuerKeyId :: "Signature \<Rightarrow> string" where
  "Signature_IssuerKeyId sig = Reverse (Signature.RIssuerKeyId sig)"

definition Signature_IssuerFingerprint :: "Signature \<Rightarrow> string" where
  "Signature_IssuerFingerprint sig = Reverse (Signature.RIssuerFingerprint sig)"

subsection \<open>Hexadecimal key ids\<close>

text \<open>
  \<^verbatim>\<open>binary.BigEndian.PutUint64\<close> and \<^verbatim>\<open>hex.EncodeToString\<close> of the Go standard
  library, as \<^verbatim>\<open>setPacketV4\<close> uses them.
\<close>

definition PutUint64 :: "64 word \<Rightarrow> byte list" where
  "PutUint64 v =
     [ucast (drop_bit 56 v), ucast (drop_bit 48 v), ucast (drop_bit 40 v),
      ucast (drop_bit 32 v), ucast (drop_bit 24 v), ucast (drop_bit 16 v),
      ucast (drop_bit 8 v), ucast v]"

definition hextable :: string where
  "hextable = ''0123456789abcdef''"

definition EncodeToString :: "byte list \<Rightarrow> string" where
  "EncodeToString src =
     concat (map (\<lambda>v. [hextable ! unat (drop_bit 4 v), hextable ! unat (take_bit 4 v)]) src)"

subsection \<open>Pubkey: packet accessors\<close>

definition Pubkey_GetPublicKey ::
  "packet_lib \<Rightarrow> Pubkey \<Rightarrow> panic + (packet_PublicKey \<times> error option)" where
  "Pubkey_GetPublicKey L pubkey =
     (case Read L (Pubkey.Packet pubkey) of
        (Some (PublicKeyPacket pk), err) \<Rightarrow> Inr (pk, err)
      | _ \<Rightarrow> Inl InterfaceConversion)"

definition Pubkey_GetPacket ::
  "packet_lib \<Rightarrow> Pubkey \<Rightarrow> panic + (packet_Packet \<times> error option)" where
  "Pubkey_GetPacket L pubkey =
     (case Pubkey_GetPublicKey L pubkey of
        Inl p \<Rightarrow> Inl p
      | Inr (pk, err) \<Rightarrow> Inr (PublicKeyPacket pk, err))"

definition Pubkey_SetPublicKey ::
  "packet_lib \<Rightarrow> Pubkey \<Rightarrow> packet_PublicKey \<Rightarrow> error option \<times> Pubkey" where
  "Pubkey_SetPublicKey L pubkey pk =
     (case PublicKey_Serialize L pk of
        Inl err \<Rightarrow> (Some err, pubkey)
      | Inr buf \<Rightarrow>
          (let fingerprint = Fingerprint L pk in
           case PublicKey_BitLength L pk of
             Inl err \<Rightarrow> (Some err, pubkey)
           | Inr bitLen \<Rightarrow>
               if IsSubkey pk then (Some InvalidPacketErr, pubkey)
               else (None,
                 pubkey\<lparr>Pubkey.Packet := buf,
                   Pubkey.RFingerprint := Reverse fingerprint,
                   Pubkey.Creation := packet_PublicKey.CreationTime pk,
                   Pubkey.Algorithm := ucast (PubKeyAlgo pk),
                   Pubkey.BitLen := ucast bitLen\<rparr>)))"

definition Pubkey_SetPacket ::
  "packet_lib \<Rightarrow> Pubkey \<Rightarrow> packet_Packet \<Rightarrow> error option \<times> Pubkey" where
  "Pubkey_SetPacket L pubkey p =
     (case p of
        PublicKeyPacket pk \<Rightarrow> Pubkey_SetPublicKey L pubkey pk
      | _ \<Rightarrow> (Some ErrInvalidPacketType, pubkey))"

subsection \<open>Signature: packet accessors\<close>

definition Signature_GetSignature ::
  "packet_lib \<Rightarrow> Signature \<Rightarrow> packet_Packet option \<times> error option" where
  "Signature_GetSignature L sig = Read L (Signature.Packet sig)"

definition Signature_GetPacket ::
  "packet_lib \<Rightarrow> Signature \<Rightarrow> packet_Packet option \<times> error option" where
  "Signature_GetPacket L sig = Signature_GetSignature L sig"

definition Signature_setPacketV4 ::
  "packet_lib \<Rightarrow> Signature \<Rightarrow> packet_Signature \<Rightarrow> error option \<times> Signature" where
  "Signature_setPacketV4 L sig s =
     (case Signature_Serialize L s of
        Inl err \<Rightarrow> (Some err, sig)
      | Inr buf \<Rightarrow>
          (case IssuerKeyId s of
             None \<Rightarrow> (Some ErrMissingIssuerKeyId, sig)
           | Some keyid \<Rightarrow>
               (let sigKeyId = EncodeToString (PutUint64 keyid);
                    sig1 = sig\<lparr>Signature.Creation := packet_Signature.CreationTime s,
                             Signature.Packet := buf,
                             Signature.SigType := ucast (packet_Signature.SigType s),
                             Signature.RIssuerKeyId := Reverse sigKeyId\<rparr>
                in (None,
                     (case SigLifetimeSecs s of
                        None \<Rightarrow> sig1
                      | Some secs \<Rightarrow>
                          sig1\<lparr>Signature.Expiration :=
                            packet_Signature.CreationTime s + int (unat secs)\<rparr>)))))"

definition Signature_SetSignature ::
  "packet_lib \<Rightarrow> Signature \<Rightarrow> packet_Packet \<Rightarrow> error option \<times> Signature" where
  "Signature_SetSignature L sig p =
     (case p of
        SignaturePacket s \<Rightarrow> Signature_setPacketV4 L sig s
      | _ \<Rightarrow> (Some InvalidPacketType, sig))"

definition Signature_SetPacket ::
  "packet_lib \<Rightarrow> Signature \<Rightarrow> packet_Packet \<Rightarrow> error option \<times> Signature" where
  "Signature_SetPacket L sig p = Signature_SetSignature L sig p"

subsection \<open>UserId: packet accessors\<close>

text \<open>
  \<^verbatim>\<open>GetUserId\<close> builds its buffer from \<^verbatim>\<open>pubkey.Packet\<close>, where \<^verbatim>\<open>pubkey\<close> is not the
  receiver \<^verbatim>\<open>uid\<close>: the model takes the \<^verbatim>\<open>pubkey\<close> the body names as a parameter.
  \<^verbatim>\<open>SetPacket\<close> returns \<^verbatim>\<open>SetUserId(u)\<close>, read as the receiver's method.
\<close>

definition UserId_GetUserId ::
  "packet_lib \<Rightarrow> Pubkey \<Rightarrow> UserId \<Rightarrow> panic + (packet_UserId \<times> error option)" where
  "UserId_GetUserId L pubkey uid =
     (case Read L (Pubkey.Packet pubkey) of
        (Some (UserIdPacket u), err) \<Rightarrow> Inr (u, err)
      | _ \<Rightarrow> Inl InterfaceConversion)"

definition UserId_GetPacket ::
  "packet_lib \<Rightarrow> Pubkey \<Rightarrow> UserId \<Rightarrow> panic + (packet_Packet \<times> error option)" where
  "UserId_GetPacket L pubkey uid =
     (case UserId_GetUserId L pubkey uid of
        Inl p \<Rightarrow> Inl p
      | Inr (u, err) \<Rightarrow> Inr (UserIdPacket u, err))"

definition UserId_SetUserId ::
  "packet_lib \<Rightarrow> UserId \<Rightarrow> packet_UserId \<Rightarrow> error option \<times> UserId" where
  "UserId_SetUserId L uid u =
     (case UserId_Serialize L u of
        Inl err \<Rightarrow> (Some err, uid)
      | Inr buf \<Rightarrow>
          (None, uid\<lparr>UserId.Packet := buf, UserId.Keywords := CleanUtf8 L (Id u)\<rparr>))"

definition UserId_SetPacket ::
  "packet_lib \<Rightarrow> UserId \<Rightarrow> packet_Packet \<Rightarrow> error option \<times> UserId" where
  "UserId_SetPacket L uid p =
     (case p of
        UserIdPacket u \<Rightarrow> UserId_SetUserId L uid u
      | _ \<Rightarrow> (Some ErrInvalidPacketType, uid))"

subsection \<open>UserAttribute: packet accessors and images\<close>

text \<open>
  \<^verbatim>\<open>GetPacket\<close> returns \<^verbatim>\<open>GetOpaquePacket()\<close>, read as the receiver's method.
  \<^verbatim>\<open>SetOpaquePacket\<close> ends after storing the bytes without a \<^verbatim>\<open>return\<close>; the model
  returns \<^verbatim>\<open>nil\<close> there.
\<close>

definition UserAttribute_GetOpaquePacket ::
  "packet_lib \<Rightarrow> UserAttribute \<Rightarrow> error + packet_OpaquePacket" where
  "UserAttribute_GetOpaquePacket L uat = OpaqueReader_Next L (UserAttribute.Packet uat)"

definition UserAttribute_GetPacket ::
  "packet_lib \<Rightarrow> UserAttribute \<Rightarrow> error + packet_OpaquePacket" where
  "UserAttribute_GetPacket L uat = UserAttribute_GetOpaquePacket L uat"

definition UserAttribute_SetOpaquePacket ::
  "packet_lib \<Rightarrow> UserAttribute \<Rightarrow> packet_OpaquePacket \<Rightarrow> error option \<times> UserAttribute" where
  "UserAttribute_SetOpaquePacket L uat op =
     (case OpaquePacket_Serialize L op of
        Inl err \<Rightarrow> (Some err, uat)
      | Inr buf \<Rightarrow> (None, uat\<lparr>UserAttribute.Packet := buf\<rparr>))"

definition UserAttribute_SetPacket ::
  "packet_lib \<Rightarrow> UserAttribute \<Rightarrow> packet_Packet \<Rightarrow> error option \<times> UserAttribute" where
  "UserAttribute_SetPacket L uat p =
     (case p of
        OpaquePacket op \<Rightarrow> UserAttribute_SetOpaquePacket L uat op
      | _ \<Rightarrow> (Some ErrInvalidPacketType, uat))"

definition ImageSubType :: "8 word" where
  "ImageSubType = 1"

definition ImageSubOffset :: nat where
  "ImageSubOffset = 16"

text \<open>
  The loop of \<^verbatim>\<open>GetJpegData\<close> over the subpackets, with the result built so far.
  A \<^verbatim>\<open>bytes.Buffer\<close> is the list of its bytes.
\<close>

fun GetJpegData_loop ::
  "packet_OpaqueSubpacket list \<Rightarrow> byte list list \<Rightarrow> panic + byte list list" where
  "GetJpegData_loop [] result = Inr result"
| "GetJpegData_loop (subpacket # rest) result =
     (if SubType subpacket = ImageSubType
         \<and> length (packet_OpaqueSubpacket.Contents subpacket) > ImageSubOffset
      then (case slice_from (packet_OpaqueSubpacket.Contents subpacket) ImageSubOffset of
              Inl p \<Rightarrow> Inl p
            | Inr img \<Rightarrow> GetJpegData_loop rest (result @ [img]))
      else GetJpegData_loop rest result)"

definition UserAttribute_GetJpegData ::
  "packet_lib \<Rightarrow> UserAttribute \<Rightarrow> panic + byte list list" where
  "UserAttribute_GetJpegData L uat =
     (case UserAttribute_GetPacket L uat of
        Inl err \<Rightarrow> Inr []
      | Inr op \<Rightarrow>
          (case OpaqueSubpackets L (packet_OpaquePacket.Contents op) of
             Inl err \<Rightarrow> Inr []
           | Inr subpackets \<Rightarrow> GetJpegData_loop subpackets []))"

subsection \<open>Subkey: packet accessors\<close>

text \<open>
  \<^verbatim>\<open>Subkey.GetPublicKey\<close> builds its buffer from \<^verbatim>\<open>subkey.GetPacket()\<close>, and
  \<^verbatim>\<open>Subkey.GetPacket\<close> returns \<^verbatim>\<open>subkey.GetPublicKey()\<close>: the two methods call each
  other before either reads a byte. The recursion is kept as it is written,
  with \<open>None\<close> for a call that does not return. What the body would do with the
  packet returned by the inner call is not well-typed in the source (a packet
  where \<^verbatim>\<open>bytes.NewBuffer\<close> takes bytes); the model reads the bytes that packet
  serializes to.
\<close>

partial_function (option) Subkey_GetPublicKey ::
  "packet_lib \<Rightarrow> Subkey \<Rightarrow> (panic + (packet_PublicKey \<times> error option)) option" where
  "Subkey_GetPublicKey L subkey =
     Option.bind (Subkey_GetPublicKey L subkey)
       (\<lambda>inner. Some
          (case inner of
             Inl p \<Rightarrow> Inl p
           | Inr (pk0, err0) \<Rightarrow>
               (case Read L (case PublicKey_Serialize L pk0 of Inl e \<Rightarrow> [] | Inr bs \<Rightarrow> bs) of
                  (Some (PublicKeyPacket pk), err) \<Rightarrow> Inr (pk, err)
                | _ \<Rightarrow> Inl InterfaceConversion)))"

definition Subkey_GetPacket ::
  "packet_lib \<Rightarrow> Subkey \<Rightarrow> (panic + (packet_Packet \<times> error option)) option" where
  "Subkey_GetPacket L subkey =
     map_option (\<lambda>r. case r of Inl p \<Rightarrow> Inl p | Inr (pk, err) \<Rightarrow> Inr (PublicKeyPacket pk, err))
       (Subkey_GetPublicKey L subkey)"

definition Subkey_SetPublicKey ::
  "packet_lib \<Rightarrow> Subkey \<Rightarrow> packet_PublicKey \<Rightarrow> error option \<times> Subkey" where
  "Subkey_SetPublicKey L subkey pk =
     (case PublicKey_Serialize L pk of
        Inl err \<Rightarrow> (Some err, subkey)
      | Inr buf \<Rightarrow>
          (let fingerprint = Fingerprint L pk in
           case PublicKey_BitLength L pk of
             Inl err \<Rightarrow> (Some err, subkey)
           | Inr bitLen \<Rightarrow>
               if \<not> IsSubkey pk then (Some InvalidPacketErr, subkey)
               else (None,
                 subkey\<lparr>Subkey.Packet := buf,
                   Subkey.RFingerprint := Reverse fingerprint,
                   Subkey.Creation := packet_PublicKey.CreationTime pk,
                   Subkey.Algorithm := ucast (PubKeyAlgo pk),
                   Subkey.BitLen := ucast bitLen\<rparr>)))"

definition Subkey_SetPacket ::
  "packet_lib \<Rightarrow> Subkey \<Rightarrow> packet_Packet \<Rightarrow> error option \<times> Subkey" where
  "Subkey_SetPacket L subkey p =
     (case p of
        PublicKeyPacket pk \<Rightarrow> Subkey_SetPublicKey L subkey pk
      | _ \<Rightarrow> (Some ErrInvalidPacketType, subkey))"

subsection \<open>Traversal\<close>

text \<open>
  A \<^verbatim>\<open>PacketVisitor\<close> is a Go closure: it may keep a state of its own between
  calls, so the model threads a state of any type through the traversal.
\<close>

type_synonym 's PacketVisitor = "PacketRecord \<Rightarrow> 's \<Rightarrow> error option \<times> 's"

definition Signature_Visit :: "'s PacketVisitor \<Rightarrow> Signature \<Rightarrow> 's \<Rightarrow> error option \<times> 's" where
  "Signature_Visit visitor sig st = visitor (SignatureRecord sig) st"

text \<open>
  The loops of the \<^verbatim>\<open>Visit\<close> methods all have the shape
  \<^verbatim>\<open>for _, x := range xs { err = x.Visit(visitor); if err != nil { return } }\<close>.
\<close>

fun range_Visit ::
  "('a \<Rightarrow> 's \<Rightarrow> error option \<times> 's) \<Rightarrow> 'a list \<Rightarrow> 's \<Rightarrow> error option \<times> 's" where
  "range_Visit visit [] st = (None, st)"
| "range_Visit visit (x # xs) st =
     (case visit x st of
        (Some err, st') \<Rightarrow> (Some err, st')
      | (None, st') \<Rightarrow> range_Visit visit xs st')"

definition UserId_Visit :: "'s PacketVisitor \<Rightarrow> UserId \<Rightarrow> 's \<Rightarrow> error option \<times> 's" where
  "UserId_Visit visitor uid st =
     (case visitor (UserIdRecord uid) st of
        (Some err, st') \<Rightarrow> (Some err, st')
      | (None, st') \<Rightarrow> range_Visit (Signature_Visit visitor) (UserId.Signatures uid) st')"

definition UserAttribute_Visit ::
  "'s PacketVisitor \<Rightarrow> UserAttribute \<Rightarrow> 's \<Rightarrow> error option \<times> 's" where
  "UserAttribute_Visit visitor uat st =
     (case visitor (UserAttributeRecord uat) st of
        (Some err, st') \<Rightarrow> (Some err, st')
      | (None, st') \<Rightarrow> range_Visit (Signature_Visit visitor) (UserAttribute.Signatures uat) st')"

definition Subkey_Visit :: "'s PacketVisitor \<Rightarrow> Subkey \<Rightarrow> 's \<Rightarrow> error option \<times> 's" where
  "Subkey_Visit visitor subkey st =
     (case visitor (SubkeyRecord subkey) st of
        (Some err, st') \<Rightarrow> (Some err, st')
      | (None, st') \<Rightarrow> range_Visit (Signature_Visit visitor) (Subkey.Signatures subkey) st')"

definition Pubkey_Visit :: "'s PacketVisitor \<Rightarrow> Pubkey \<Rightarrow> 's \<Rightarrow> error option \<times> 's" where
  "Pubkey_Visit visitor pubkey st =
     (case visitor (PubkeyRecord pubkey) st of
        (Some err, st1) \<Rightarrow> (Some err, st1)
      | (None, st1) \<Rightarrow>
     (case range_Visit (Signature_Visit visitor) (Pubkey.Signatures pubkey) st1 of
        (Some err, st2) \<Rightarrow> (Some err, st2)
      | (None, st2) \<Rightarrow>
     (case range_Visit (UserId_Visit visitor) (UserIds pubkey) st2 of
        (Some err, st3) \<Rightarrow> (Some err, st3)
      | (None, st3) \<Rightarrow>
     (case range_Visit (UserAttribute_Visit visitor) (UserAttributes pubkey) st3 of
        (Some err, st4) \<Rightarrow> (Some err, st4)
      | (None, st4) \<Rightarrow>
          range_Visit (Subkey_Visit visitor) (Subkeys pubkey) st4))))"

text \<open>
  The traversal as the spec words it (4.3): the entities of a tree in the fixed
  pre-order, and a visitor applied to a sequence of entities up to and
  including the first one on which it returns an error.
\<close>

definition preorder_UserId :: "UserId \<Rightarrow> PacketRecord list" where
  "preorder_UserId uid = UserIdRecord uid # map SignatureRecord (UserId.Signatures uid)"

definition preorder_UserAttribute :: "UserAttribute \<Rightarrow> PacketRecord list" where
  "preorder_UserAttribute uat =
     UserAttributeRecord uat # map SignatureRecord (UserAttribute.Signatures uat)"

definition preorder_Subkey :: "Subkey \<Rightarrow> PacketRecord list" where
  "preorder_Subkey subkey = SubkeyRecord subkey # map SignatureRecord (Subkey.Signatures subkey)"

definition preorder_Pubkey :: "Pubkey \<Rightarrow> PacketRecord list" where
  "preorder_Pubkey pubkey =
     PubkeyRecord pubkey # map SignatureRecord (Pubkey.Signatures pubkey)
       @ concat (map preorder_UserId (UserIds pubkey))
       @ concat (map preorder_UserAttribute (UserAttributes pubkey))
       @ concat (map preorder_Subkey (Subkeys pubkey))"

fun visit_until_error :: "'s PacketVisitor \<Rightarrow> PacketRecord list \<Rightarrow> 's \<Rightarrow> error option \<times> 's" where
  "visit_until_error visitor [] st = (None, st)"
| "visit_until_error visitor (r # rs) st =
     (case visitor r st of
        (Some err, st') \<Rightarrow> (Some err, st')
      | (None, st') \<Rightarrow> visit_until_error visitor rs st')"

subsection \<open>Self-signatures\<close>

text \<open>
  \<^verbatim>\<open>packet.SignatureType\<close> is \<^verbatim>\<open>uint8\<close>: the conversion of the \<^verbatim>\<open>int\<close> field
  \<^verbatim>\<open>SigType\<close> keeps its low eight bits. \<^verbatim>\<open>packet.SigTypePositiveCert\<close> is the
  library's constant \<^verbatim>\<open>0x13\<close>.
\<close>

definition packet_SignatureType :: "64 word \<Rightarrow> 8 word" where
  "packet_SignatureType n = ucast n"

definition SigTypePositiveCert :: "8 word" where
  "SigTypePositiveCert = 0x13"

fun UserId_SelfSignature_loop :: "Signature list \<Rightarrow> Signature option" where
  "UserId_SelfSignature_loop [] = None"
| "UserId_SelfSignature_loop (userSig # rest) =
     (if packet_SignatureType (Signature.SigType userSig) = SigTypePositiveCert
      then Some userSig
      else UserId_SelfSignature_loop rest)"

definition UserId_SelfSignature :: "UserId \<Rightarrow> Signature option" where
  "UserId_SelfSignature uid = UserId_SelfSignature_loop (UserId.Signatures uid)"

fun Pubkey_SelfSignature_loop :: "Signature list \<Rightarrow> Signature option" where
  "Pubkey_SelfSignature_loop [] = None"
| "Pubkey_SelfSignature_loop (pkSig # rest) =
     (if packet_SignatureType (Signature.SigType pkSig) = SigTypePositiveCert then Some pkSig
      else if packet_SignatureType (Signature.SigType pkSig) = 0x19 then Some pkSig
      else Pubkey_SelfSignature_loop rest)"

definition Pubkey_SelfSignature :: "Pubkey \<Rightarrow> Signature option" where
  "Pubkey_SelfSignature pk = Pubkey_SelfSignature_loop (Pubkey.Signatures pk)"

subsection \<open>The merge engine\<close>

text \<open>
  Modelled from the spec: the source file holds no merge function. The spec
  (4.5) gives \<^verbatim>\<open>merge(existing Pubkey, incoming Pubkey) -> (merged Pubkey, error)\<close>
  with the precondition of equal \<^verbatim>\<open>RFingerprint\<close> ("fingerprint mismatch"
  otherwise) and five steps, which the definitions below follow.

  Step 1, signatures: "union by signature identity (scoped digest); a signature
  present in only one side is carried into the result untouched; a signature
  present in both (same digest) is kept once". The incoming signatures are
  added one by one to the existing list; one whose digest the list already
  holds is dropped.
\<close>

definition add_Signature :: "Signature list \<Rightarrow> Signature \<Rightarrow> Signature list" where
  "add_Signature acc s =
     (if Signature.ScopedDigest s \<in> set (map Signature.ScopedDigest acc) then acc else acc @ [s])"

definition merge_Signatures :: "Signature list \<Rightarrow> Signature list \<Rightarrow> Signature list" where
  "merge_Signatures existing incoming = foldl add_Signature existing incoming"

text \<open>
  Modelled from the spec, steps 2 and 3: User IDs and User Attributes are
  "matched across the two trees by their identity digest", Subkeys "by
  reversed fingerprint"; "if present on both sides, signatures merged per rule
  (1); otherwise carried over" with the full signature list. The three entity
  kinds share one definition, given the identity of an entity, its signature
  list and the update of that list.
\<close>

definition add_child ::
  "('a \<Rightarrow> string) \<Rightarrow> ('a \<Rightarrow> Signature list) \<Rightarrow> ('a \<Rightarrow> Signature list \<Rightarrow> 'a)
     \<Rightarrow> 'a list \<Rightarrow> 'a \<Rightarrow> 'a list" where
  "add_child ident sigs with_sigs acc v =
     (if ident v \<in> set (map ident acc)
      then map (\<lambda>u. if ident u = ident v
                     then with_sigs u (merge_Signatures (sigs u) (sigs v)) else u) acc
      else acc @ [v])"

definition merge_children ::
  "('a \<Rightarrow> string) \<Rightarrow> ('a \<Rightarrow> Signature list) \<Rightarrow> ('a \<Rightarrow> Signature list \<Rightarrow> 'a)
     \<Rightarrow> 'a list \<Rightarrow> 'a list \<Rightarrow> 'a list" where
  "merge_children ident sigs with_sigs existing incoming =
     foldl (add_child ident sigs with_sigs) existing incoming"

definition merge_UserIds :: "UserId list \<Rightarrow> UserId list \<Rightarrow> UserId list" where
  "merge_UserIds existing incoming =
     merge_children UserId.ScopedDigest UserId.Signatures
       (\<lambda>uid sigs. uid\<lparr>UserId.Signatures := sigs\<rparr>) existing incoming"

definition merge_UserAttributes ::
  "UserAttribute list \<Rightarrow> UserAttribute list \<Rightarrow> UserAttribute list" where
  "merge_UserAttributes existing incoming =
     merge_children UserAttribute.ScopedDigest UserAttribute.Signatures
       (\<lambda>uat sigs. uat\<lparr>UserAttribute.Signatures := sigs\<rparr>) existing incoming"

definition merge_Subkeys :: "Subkey list \<Rightarrow> Subkey list \<Rightarrow> Subkey list" where
  "merge_Subkeys existing incoming =
     merge_children Subkey.RFingerprint Subkey.Signatures
       (\<lambda>subkey sigs. subkey\<lparr>Subkey.Signatures := sigs\<rparr>) existing incoming"

text \<open>
  Modelled from the spec, step 4: "the Self-Signature Resolver is re-run over
  every UserId/UserAttribute and over the Pubkey itself, replacing any
  previously cached SelfSignature/Revsig references". The source file has the
  resolver of a UserId and of a Pubkey; for a UserAttribute the spec (4.4)
  gives the scan of the UserId.
\<close>

definition UserAttribute_SelfSignature :: "UserAttribute \<Rightarrow> Signature option" where
  "UserAttribute_SelfSignature uat = UserId_SelfSignature_loop (UserAttribute.Signatures uat)"

text \<open>
  Modelled from the spec, step 5: "State is recomputed ... This recomputation is
  purely a function of the merged signature set". Which revocation signature is
  valid and how the states are numbered rests on the verification capability
  that the spec leaves outside; the two functions are parameters of the merge.
\<close>

record state_policy =
  state_of :: "Signature list \<Rightarrow> Signature option \<Rightarrow> 64 word"
  revsig_of :: "Signature list \<Rightarrow> sig_ref option"

definition resolve_UserId :: "state_policy \<Rightarrow> UserId \<Rightarrow> UserId" where
  "resolve_UserId P uid =
     uid\<lparr>UserId.SelfSignature := map_option Signature.ScopedDigest (UserId_SelfSignature uid),
         UserId.State := state_of P (UserId.Signatures uid) (UserId_SelfSignature uid)\<rparr>"

definition resolve_UserAttribute :: "state_policy \<Rightarrow> UserAttribute \<Rightarrow> UserAttribute" where
  "resolve_UserAttribute P uat =
     uat\<lparr>UserAttribute.SelfSignature :=
           map_option Signature.ScopedDigest (UserAttribute_SelfSignature uat),
         UserAttribute.State :=
           state_of P (UserAttribute.Signatures uat) (UserAttribute_SelfSignature uat)\<rparr>"

definition resolve_Subkey :: "state_policy \<Rightarrow> Subkey \<Rightarrow> Subkey" where
  "resolve_Subkey P subkey =
     subkey\<lparr>Subkey.State := state_of P (Subkey.Signatures subkey) None\<rparr>"

definition resolve_Pubkey :: "state_policy \<Rightarrow> Pubkey \<Rightarrow> Pubkey" where
  "resolve_Pubkey P pubkey =
     pubkey\<lparr>Pubkey.Revsig := revsig_of P (Pubkey.Signatures pubkey),
            Pubkey.State := state_of P (Pubkey.Signatures pubkey) (Pubkey_SelfSignature pubkey)\<rparr>"

text \<open>
  Modelled from the spec: the merge itself (4.5). It fails with "fingerprint
  mismatch" unless the two trees have the same \<^verbatim>\<open>RFingerprint\<close>. Otherwise the
  unions of steps 1 to 3 replace the lists of the existing tree, which keeps
  its other stored fields, and steps 4 and 5 recompute the derived ones.
\<close>

definition merge :: "state_policy \<Rightarrow> Pubkey \<Rightarrow> Pubkey \<Rightarrow> error + Pubkey" where
  "merge P existing incoming =
     (if Pubkey.RFingerprint existing \<noteq> Pubkey.RFingerprint incoming
      then Inl ErrFingerprintMismatch
      else Inr (resolve_Pubkey P
        (existing\<lparr>Pubkey.Signatures :=
             merge_Signatures (Pubkey.Signatures existing) (Pubkey.Signatures incoming),
           Pubkey.UserIds :=
             map (resolve_UserId P) (merge_UserIds (UserIds existing) (UserIds incoming)),
           Pubkey.UserAttributes :=
             map (resolve_UserAttribute P)
               (merge_UserAttributes (UserAttributes existing) (UserAttributes incoming)),
           Pubkey.Subkeys :=
             map (resolve_Subkey P) (merge_Subkeys (Subkeys existing) (Subkeys incoming))\<rparr>)))"







definition distinct_identities :: "Pubkey \<Rightarrow> bool" where
  "distinct_identities pubkey \<longleftrightarrow>
     distinct (map UserId.ScopedDigest (UserIds pubkey))
     \<and> distinct (map UserAttribute.ScopedDigest (UserAttributes pubkey))
     \<and> distinct (map Subkey.RFingerprint (Subkeys pubkey))"

subsection \<open>Concrete instances\<close>

text \<open>
  A small stand-in for the packet library and a few entities and packets, used
  to instantiate the theorems below. The stand-in's \<open>PublicKey_BitLength\<close>
  follows the library's: it knows the RSA, ElGamal and DSA algorithms
  (1, 2, 3, 16, 17) and answers "bad public-key algorithm" for any other.
\<close>

definition example_lib :: packet_lib where
  "example_lib =
     \<lparr>PublicKey_Serialize = (\<lambda>pk. Inr (PubKeyAlgo pk # KeyMaterial pk)),
      PublicKey_BitLength = (\<lambda>pk.
         if PubKeyAlgo pk = 1 \<or> PubKeyAlgo pk = 2 \<or> PubKeyAlgo pk = 3
            \<or> PubKeyAlgo pk = 16 \<or> PubKeyAlgo pk = 17
         then Inr 2048 else Inl (LibraryError ''bad public-key algorithm'')),
      Signature_Serialize = (\<lambda>s. Inr (packet_Signature.SigType s # SigMaterial s)),
      UserId_Serialize = (\<lambda>u. Inr (map of_char (Id u))),
      OpaquePacket_Serialize = (\<lambda>op. Inr (Tag op # packet_OpaquePacket.Contents op)),
      Read = (\<lambda>bs. (None, Some (LibraryError ''unsupported packet''))),
      OpaqueReader_Next = (\<lambda>bs. Inl (LibraryError ''EOF'')),
      OpaqueSubpackets = (\<lambda>bs. Inr []),
      Fingerprint = (\<lambda>pk. ''0123456789abcdef0123456789abcdef01234567''),
      CleanUtf8 = (\<lambda>s. s)\<rparr>"

definition example_fingerprint :: string where
  "example_fingerprint = ''0123456789abcdef0123456789abcdef01234567''"

definition example_Signature :: Signature where
  "example_Signature =
     \<lparr>Signature.ScopedDigest = ''s1'', Creation = 0, Expiration = 0, State = 0, Packet = [],
      SigType = 0x10, RIssuerKeyId = [], RIssuerFingerprint = [], RevsigDigest = [],
      Revsig = None\<rparr>"

definition example_Subkey :: Subkey where
  "example_Subkey =
     \<lparr>Subkey.RFingerprint = ''76543210'', Creation = 0, Expiration = 0, State = 0,
      Packet = [1, 2, 3], PubkeyRFP = [], RevsigDigest = [], Algorithm = 1, BitLen = 1024,
      Signatures = []\<rparr>"

definition example_Pubkey :: Pubkey where
  "example_Pubkey =
     \<lparr>Pubkey.RFingerprint = ''fedcba98'', Creation = 0, Expiration = 0, State = 0,
      Packet = [4, 5, 6], Ctime = 0, Mtime = 0, Md5 = [], Sha256 = [], RevsigDigest = [],
      Algorithm = 1, BitLen = 1024, Signatures = [], Subkeys = [], UserIds = [],
      UserAttributes = [], Revsig = None\<rparr>"

definition example_rsa_primary :: packet_PublicKey where
  "example_rsa_primary =
     \<lparr>packet_PublicKey.CreationTime = 1356998400, PubKeyAlgo = 1, IsSubkey = False,
      KeyMaterial = [7, 8]\<rparr>"

definition example_rsa_subkey :: packet_PublicKey where
  "example_rsa_subkey =
     \<lparr>packet_PublicKey.CreationTime = 1356998400, PubKeyAlgo = 1, IsSubkey = True,
      KeyMaterial = [9, 10]\<rparr>"

definition example_ecdsa_primary :: packet_PublicKey where
  "example_ecdsa_primary =
     \<lparr>packet_PublicKey.CreationTime = 1356998400, PubKeyAlgo = 19, IsSubkey = False,
      KeyMaterial = [11, 12]\<rparr>"

definition example_sig_no_issuer :: packet_Signature where
  "example_sig_no_issuer =
     \<lparr>packet_Signature.SigType = 0x13, CreationTime = 1356998400, SigLifetimeSecs = None,
      IssuerKeyId = None, SigMaterial = [13]\<rparr>"

definition example_sig_issuer :: packet_Signature where
  "example_sig_issuer =
     \<lparr>packet_Signature.SigType = 0x13, CreationTime = 1356998400, SigLifetimeSecs = Some 60,
      IssuerKeyId = Some 0x0123456789ABCDEF, SigMaterial = [14]\<rparr>"







section \<open>Properties\<close>

subsection \<open>Reversal\<close>

lemma Reverse_take: "n \<le> length fp \<Longrightarrow> Reverse (take n (Reverse fp)) = drop (length fp - n) fp"
  by (simp add: Reverse_def take_rev)

text \<open>
  Claim C9. Reversal is an involution: reversing a string twice gives the
  string back. Hence the views \<^verbatim>\<open>Fingerprint()\<close>, \<^verbatim>\<open>IssuerKeyId()\<close> and
  \<^verbatim>\<open>IssuerFingerprint()\<close>, applied to an entity whose reversed field holds the
  reversal of a canonical string, return that canonical string.
\<close>

theorem Reverse_involution:
  "Reverse (Reverse s) = s
   \<and> Pubkey_Fingerprint (pubkey\<lparr>Pubkey.RFingerprint := Reverse s\<rparr>) = s
   \<and> Subkey_Fingerprint (subkey\<lparr>Subkey.RFingerprint := Reverse s\<rparr>) = s
   \<and> Signature_IssuerKeyId (sig\<lparr>Signature.RIssuerKeyId := Reverse s\<rparr>) = s
   \<and> Signature_IssuerFingerprint (sig\<lparr>Signature.RIssuerFingerprint := Reverse s\<rparr>) = s"
  by (simp add: Reverse_def Pubkey_Fingerprint_def Subkey_Fingerprint_def
      Signature_IssuerKeyId_def Signature_IssuerFingerprint_def)

subsection \<open>Key ids\<close>

text \<open>
  Claim C3. For a Pubkey or Subkey whose \<^verbatim>\<open>RFingerprint\<close> is the reversal of a
  fingerprint \<open>fp\<close>, \<^verbatim>\<open>KeyId()\<close> returns the last 16 characters of \<open>fp\<close> in the order
  they have in \<open>fp\<close>, and \<^verbatim>\<open>ShortId()\<close> the last 8, provided \<open>fp\<close> has that many
  characters (a hex fingerprint has 32 or 40).
\<close>

theorem KeyId_ShortId_low_order:
  "(16 \<le> length fp \<longrightarrow>
      Pubkey_KeyId (pubkey\<lparr>Pubkey.RFingerprint := Reverse fp\<rparr>) = Inr (drop (length fp - 16) fp)
    \<and> Subkey_KeyId (subkey\<lparr>Subkey.RFingerprint := Reverse fp\<rparr>) = Inr (drop (length fp - 16) fp))
   \<and> (8 \<le> length fp \<longrightarrow>
      Pubkey_ShortId (pubkey\<lparr>Pubkey.RFingerprint := Reverse fp\<rparr>) = Inr (drop (length fp - 8) fp)
    \<and> Subkey_ShortId (subkey\<lparr>Subkey.RFingerprint := Reverse fp\<rparr>) = Inr (drop (length fp - 8) fp))"
  by (simp add: Pubkey_KeyId_def Subkey_KeyId_def Pubkey_ShortId_def Subkey_ShortId_def
      slice_to_def Reverse_take) (simp add: Reverse_def)

theorem KeyId_ShortId_low_order_witness:
  "16 \<le> length example_fingerprint \<and> 8 \<le> length example_fingerprint
   \<and> Pubkey_KeyId (example_Pubkey\<lparr>Pubkey.RFingerprint := Reverse example_fingerprint\<rparr>)
       = Inr ''89abcdef01234567''
   \<and> Subkey_KeyId (example_Subkey\<lparr>Subkey.RFingerprint := Reverse example_fingerprint\<rparr>)
       = Inr ''89abcdef01234567''
   \<and> Pubkey_ShortId (example_Pubkey\<lparr>Pubkey.RFingerprint := Reverse example_fingerprint\<rparr>)
       = Inr ''01234567''
   \<and> Subkey_ShortId (example_Subkey\<lparr>Subkey.RFingerprint := Reverse example_fingerprint\<rparr>)
       = Inr ''01234567''"
  using KeyId_ShortId_low_order [of example_fingerprint example_Pubkey example_Subkey]
  by (simp add: example_fingerprint_def)

text \<open>
  Claim C10. \<^verbatim>\<open>KeyId()\<close> and \<^verbatim>\<open>ShortId()\<close> slice \<^verbatim>\<open>RFingerprint[:16]\<close> and
  \<^verbatim>\<open>RFingerprint[:8]\<close> with no check of the length: with at least 16 (8)
  characters the slice is in bounds and the call returns the reversal of the
  first 16 (8) characters; with fewer the call panics.
\<close>

theorem KeyId_ShortId_partial:
  "Pubkey_KeyId pubkey =
     (if 16 \<le> length (Pubkey.RFingerprint pubkey)
      then Inr (Reverse (take 16 (Pubkey.RFingerprint pubkey))) else Inl SliceBoundsOutOfRange)
   \<and> Pubkey_ShortId pubkey =
     (if 8 \<le> length (Pubkey.RFingerprint pubkey)
      then Inr (Reverse (take 8 (Pubkey.RFingerprint pubkey))) else Inl SliceBoundsOutOfRange)
   \<and> Subkey_KeyId subkey =
     (if 16 \<le> length (Subkey.RFingerprint subkey)
      then Inr (Reverse (take 16 (Subkey.RFingerprint subkey))) else Inl SliceBoundsOutOfRange)
   \<and> Subkey_ShortId subkey =
     (if 8 \<le> length (Subkey.RFingerprint subkey)
      then Inr (Reverse (take 8 (Subkey.RFingerprint subkey))) else Inl SliceBoundsOutOfRange)"
  by (simp add: Pubkey_KeyId_def Subkey_KeyId_def Pubkey_ShortId_def Subkey_ShortId_def
      slice_to_def)

subsection \<open>The type guard of SetPublicKey\<close>

text \<open>
  Claim C4, as stated, fails: a primary-key packet assigned to a Subkey does not
  always yield the packet-type error. \<^verbatim>\<open>SetPublicKey\<close> asks the packet for its
  serialization and its bit length before it looks at \<^verbatim>\<open>IsSubkey\<close>, and returns
  their error first. Here a primary key of algorithm 19 (ECDSA), whose bit
  length the library does not compute, is assigned to a Subkey.
\<close>

theorem type_guard_counterexample:
  "IsSubkey example_ecdsa_primary = False
   \<and> Subkey_SetPacket example_lib example_Subkey (PublicKeyPacket example_ecdsa_primary)
       = (Some (LibraryError ''bad public-key algorithm''), example_Subkey)
   \<and> Subkey_SetPublicKey example_lib example_Subkey example_ecdsa_primary
       = (Some (LibraryError ''bad public-key algorithm''), example_Subkey)
   \<and> LibraryError ''bad public-key algorithm'' \<noteq> InvalidPacketErr
   \<and> LibraryError ''bad public-key algorithm'' \<noteq> ErrInvalidPacketType
   \<and> LibraryError ''bad public-key algorithm'' \<noteq> InvalidPacketType"
  by (simp add: Subkey_SetPacket_def Subkey_SetPublicKey_def example_lib_def
      example_ecdsa_primary_def)

text \<open>
  Claim C4, amended. Assigning a primary-key packet to a Subkey, or a subkey
  packet to a Pubkey, through \<^verbatim>\<open>SetPacket\<close> or \<^verbatim>\<open>SetPublicKey\<close> always returns an
  error and leaves the entity as it was, every field included. The error is
  the one of the packet's serialization if that fails, else the one of its bit
  length if that fails, else the packet-type error \<^verbatim>\<open>InvalidPacketErr\<close>.
\<close>

theorem type_guard:
  assumes "\<not> IsSubkey primary" and "IsSubkey sub"
  shows "Subkey_SetPublicKey L subkey primary =
           (Some (case PublicKey_Serialize L primary of
                    Inl err \<Rightarrow> err
                  | Inr buf \<Rightarrow> (case PublicKey_BitLength L primary of
                                 Inl err \<Rightarrow> err
                               | Inr bitLen \<Rightarrow> InvalidPacketErr)), subkey)
       \<and> Subkey_SetPacket L subkey (PublicKeyPacket primary) = Subkey_SetPublicKey L subkey primary
       \<and> Pubkey_SetPublicKey L pubkey sub =
           (Some (case PublicKey_Serialize L sub of
                    Inl err \<Rightarrow> err
                  | Inr buf \<Rightarrow> (case PublicKey_BitLength L sub of
                                 Inl err \<Rightarrow> err
                               | Inr bitLen \<Rightarrow> InvalidPacketErr)), pubkey)
       \<and> Pubkey_SetPacket L pubkey (PublicKeyPacket sub) = Pubkey_SetPublicKey L pubkey sub"
  using assms
  by (simp add: Subkey_SetPublicKey_def Subkey_SetPacket_def Pubkey_SetPublicKey_def
      Pubkey_SetPacket_def Let_def split: sum.splits)

theorem type_guard_witness:
  "\<not> IsSubkey example_rsa_primary \<and> IsSubkey example_rsa_subkey
   \<and> Subkey_SetPublicKey example_lib example_Subkey example_rsa_primary
       = (Some InvalidPacketErr, example_Subkey)
   \<and> Subkey_SetPacket example_lib example_Subkey (PublicKeyPacket example_rsa_primary)
       = (Some InvalidPacketErr, example_Subkey)
   \<and> Pubkey_SetPublicKey example_lib example_Pubkey example_rsa_subkey
       = (Some InvalidPacketErr, example_Pubkey)
   \<and> Pubkey_SetPacket example_lib example_Pubkey (PublicKeyPacket example_rsa_subkey)
       = (Some InvalidPacketErr, example_Pubkey)"
proof -
  have p: "\<not> IsSubkey example_rsa_primary" by (simp add: example_rsa_primary_def)
  have s: "IsSubkey example_rsa_subkey" by (simp add: example_rsa_subkey_def)
  have b1: "PublicKey_BitLength example_lib example_rsa_primary = Inr 2048"
    by (simp add: example_lib_def example_rsa_primary_def)
  have b2: "PublicKey_BitLength example_lib example_rsa_subkey = Inr 2048"
    by (simp add: example_lib_def example_rsa_subkey_def)
  have s1: "PublicKey_Serialize example_lib example_rsa_primary = Inr [1, 7, 8]"
    by (simp add: example_lib_def example_rsa_primary_def)
  have s2: "PublicKey_Serialize example_lib example_rsa_subkey = Inr [1, 9, 10]"
    by (simp add: example_lib_def example_rsa_subkey_def)
  show ?thesis
    using type_guard [OF p s, of example_lib example_Subkey example_Pubkey] p s
    by (simp add: b1 b2 s1 s2)
qed

subsection \<open>Signatures need an issuer\<close>

lemma length_EncodeToString: "length (EncodeToString src) = 2 * length src"
  by (induction src) (simp_all add: EncodeToString_def)

lemma length_PutUint64: "length (PutUint64 v) = 8"
  by (simp add: PutUint64_def)

lemma EncodeToString_PutUint64_nonempty: "EncodeToString (PutUint64 v) \<noteq> []"
proof
  assume "EncodeToString (PutUint64 v) = []"
  then have "length (EncodeToString (PutUint64 v)) = 0" by simp
  then show False by (simp add: length_EncodeToString length_PutUint64)
qed

lemma Signature_SetPacket_success:
  assumes "Signature_SetPacket L sig p = (None, sig')"
  obtains s keyid where "p = SignaturePacket s" and "IssuerKeyId s = Some keyid"
    and "Signature.RIssuerKeyId sig' = Reverse (EncodeToString (PutUint64 keyid))"
  using assms
  by (cases p)
    (auto simp: Signature_SetPacket_def Signature_SetSignature_def Signature_setPacketV4_def
      Let_def split: sum.splits option.splits)

text \<open>
  Claim C5. A signature packet without an issuer key id is rejected and nothing
  is stored: \<^verbatim>\<open>setPacketV4\<close> (and \<^verbatim>\<open>SetPacket\<close>) return an error and the Signature
  keeps every field. A Signature on which \<^verbatim>\<open>SetPacket\<close> succeeded has a non-empty
  \<^verbatim>\<open>RIssuerKeyId\<close>: the 16 hex digits of the packet's issuer key id, reversed.
\<close>

theorem Signature_issuer_required:
  "(IssuerKeyId s = None \<longrightarrow>
      (\<exists>err. Signature_setPacketV4 L sig s = (Some err, sig)
           \<and> Signature_SetPacket L sig (SignaturePacket s) = (Some err, sig)))
   \<and> (Signature_SetPacket L sig p = (None, sig') \<longrightarrow>
        Signature.RIssuerKeyId sig' \<noteq> [] \<and> length (Signature.RIssuerKeyId sig') = 16
        \<and> (\<exists>s' keyid. p = SignaturePacket s' \<and> IssuerKeyId s' = Some keyid
              \<and> Signature_IssuerKeyId sig' = EncodeToString (PutUint64 keyid)))"
proof (intro conjI impI)
  assume "IssuerKeyId s = None"
  then show "\<exists>err. Signature_setPacketV4 L sig s = (Some err, sig)
           \<and> Signature_SetPacket L sig (SignaturePacket s) = (Some err, sig)"
    by (auto simp: Signature_setPacketV4_def Signature_SetPacket_def Signature_SetSignature_def
        split: sum.splits)
next
  assume ok: "Signature_SetPacket L sig p = (None, sig')"
  then obtain s' keyid where p: "p = SignaturePacket s'" and k: "IssuerKeyId s' = Some keyid"
    and r: "Signature.RIssuerKeyId sig' = Reverse (EncodeToString (PutUint64 keyid))"
    by (rule Signature_SetPacket_success)
  from r show "Signature.RIssuerKeyId sig' \<noteq> []"
    by (simp add: Reverse_def EncodeToString_PutUint64_nonempty)
  from r show "length (Signature.RIssuerKeyId sig') = 16"
    by (simp add: Reverse_def length_EncodeToString length_PutUint64)
  from p k r show "\<exists>s' keyid. p = SignaturePacket s' \<and> IssuerKeyId s' = Some keyid
              \<and> Signature_IssuerKeyId sig' = EncodeToString (PutUint64 keyid)"
    by (simp add: Signature_IssuerKeyId_def Reverse_def)
qed

theorem Signature_issuer_required_witness:
  "IssuerKeyId example_sig_no_issuer = None
   \<and> Signature_setPacketV4 example_lib example_Signature example_sig_no_issuer
       = (Some ErrMissingIssuerKeyId, example_Signature)
   \<and> Signature_SetPacket example_lib example_Signature (SignaturePacket example_sig_issuer)
       = (None, example_Signature\<lparr>Signature.Creation := 1356998400,
            Signature.Packet := [0x13, 14], Signature.SigType := 0x13,
            Signature.RIssuerKeyId := ''fedcba9876543210'',
            Signature.Expiration := 1356998460\<rparr>)
   \<and> Signature_IssuerKeyId (snd (Signature_SetPacket example_lib example_Signature
          (SignaturePacket example_sig_issuer))) = ''0123456789abcdef''"
proof -
  have n: "IssuerKeyId example_sig_no_issuer = None"
    by (simp add: example_sig_no_issuer_def)
  have hex: "EncodeToString (PutUint64 0x0123456789ABCDEF) = ''0123456789abcdef''"
    by (simp add: EncodeToString_def PutUint64_def hextable_def drop_bit_eq_div take_bit_eq_mod)
  have e: "Signature_setPacketV4 example_lib example_Signature example_sig_no_issuer
             = (Some ErrMissingIssuerKeyId, example_Signature)"
    by (simp add: Signature_setPacketV4_def example_lib_def example_sig_no_issuer_def)
  have ok: "Signature_SetPacket example_lib example_Signature (SignaturePacket example_sig_issuer)
       = (None, example_Signature\<lparr>Signature.Creation := 1356998400,
            Signature.Packet := [0x13, 14], Signature.SigType := 0x13,
            Signature.RIssuerKeyId := ''fedcba9876543210'',
            Signature.Expiration := 1356998460\<rparr>)"
    by (simp add: Signature_SetPacket_def Signature_SetSignature_def Signature_setPacketV4_def
        example_lib_def example_sig_issuer_def hex Reverse_def Let_def)
  show ?thesis
    using Signature_issuer_required [of example_sig_no_issuer example_lib example_Signature
        "SignaturePacket example_sig_issuer"
        "snd (Signature_SetPacket example_lib example_Signature (SignaturePacket example_sig_issuer))"]
      n e ok
    by (simp add: Signature_IssuerKeyId_def Reverse_def)
qed

subsection \<open>Traversal order\<close>

lemma visit_until_error_append:
  "visit_until_error v (xs @ ys) st =
     (case visit_until_error v xs st of
        (Some e, st') \<Rightarrow> (Some e, st')
      | (None, st') \<Rightarrow> visit_until_error v ys st')"
  by (induction xs arbitrary: st) (auto split: prod.splits option.splits)

lemma range_Signature_Visit:
  "range_Visit (Signature_Visit v) sigs st = visit_until_error v (map SignatureRecord sigs) st"
  by (induction sigs arbitrary: st) (auto simp: Signature_Visit_def split: prod.splits option.splits)

lemma UserId_Visit_preorder:
  "UserId_Visit v uid st = visit_until_error v (preorder_UserId uid) st"
  by (simp add: UserId_Visit_def preorder_UserId_def range_Signature_Visit
      split: prod.splits option.splits)

lemma UserAttribute_Visit_preorder:
  "UserAttribute_Visit v uat st = visit_until_error v (preorder_UserAttribute uat) st"
  by (simp add: UserAttribute_Visit_def preorder_UserAttribute_def range_Signature_Visit
      split: prod.splits option.splits)

lemma Subkey_Visit_preorder:
  "Subkey_Visit v subkey st = visit_until_error v (preorder_Subkey subkey) st"
  by (simp add: Subkey_Visit_def preorder_Subkey_def range_Signature_Visit
      split: prod.splits option.splits)

lemma range_Visit_concat:
  "(\<And>x st. visit x st = visit_until_error v (pre x) st) \<Longrightarrow>
   range_Visit visit xs st = visit_until_error v (concat (map pre xs)) st"
  by (induction xs arbitrary: st)
    (auto simp: visit_until_error_append split: prod.splits option.splits)

text \<open>
  What stopping at the first error means: when the visitor accepts every
  entity of \<open>rs\<close> and returns an error on \<open>r\<close>, the traversal of \<open>rs @ r # rest\<close>
  returns that error and the visitor's state at that point, whatever \<open>rest\<close> is.
\<close>

lemma visit_until_error_first_error:
  "visit_until_error v rs st = (None, st') \<Longrightarrow> v r st' = (Some e, st'') \<Longrightarrow>
   visit_until_error v (rs @ r # rest) st = (Some e, st'')"
  by (simp add: visit_until_error_append)

text \<open>
  Claim C6. \<^verbatim>\<open>Pubkey.Visit\<close> applies the visitor to the entities of the tree in
  the fixed pre-order (the Pubkey, its Signatures, each UserId followed by its
  Signatures, each UserAttribute followed by its Signatures, each Subkey
  followed by its Signatures), stops at the first error the visitor returns
  and returns that error; the same holds for the \<^verbatim>\<open>Visit\<close> of a UserId, a
  UserAttribute and a Subkey.
\<close>

theorem Visit_preorder:
  "Pubkey_Visit visitor pubkey st = visit_until_error visitor (preorder_Pubkey pubkey) st
   \<and> UserId_Visit visitor uid st = visit_until_error visitor (preorder_UserId uid) st
   \<and> UserAttribute_Visit visitor uat st = visit_until_error visitor (preorder_UserAttribute uat) st
   \<and> Subkey_Visit visitor subkey st = visit_until_error visitor (preorder_Subkey subkey) st"
proof -
  have "Pubkey_Visit visitor pubkey st = visit_until_error visitor (preorder_Pubkey pubkey) st"
    by (simp add: Pubkey_Visit_def preorder_Pubkey_def visit_until_error_append
        range_Signature_Visit
        range_Visit_concat [where v = visitor, OF UserId_Visit_preorder]
        range_Visit_concat [where v = visitor, OF UserAttribute_Visit_preorder]
        range_Visit_concat [where v = visitor, OF Subkey_Visit_preorder]
        split: prod.splits option.splits)
  then show ?thesis
    by (simp only: UserId_Visit_preorder UserAttribute_Visit_preorder Subkey_Visit_preorder
        simp_thms)
qed

subsection \<open>Self-signature lookup\<close>

text \<open>
  Claim C7. \<^verbatim>\<open>UserId.SelfSignature\<close> returns the first signature of the stored
  list whose type is the positive certification, \<^verbatim>\<open>Pubkey.SelfSignature\<close> the
  first whose type is the positive certification or \<^verbatim>\<open>0x19\<close>; with no such
  signature both return \<^verbatim>\<open>nil\<close> (\<open>find\<close> is the first element of a list that
  satisfies a predicate, \<open>None\<close> when there is none).
\<close>

theorem SelfSignature_first_match:
  "UserId_SelfSignature uid =
     find (\<lambda>s. packet_SignatureType (Signature.SigType s) = SigTypePositiveCert)
       (UserId.Signatures uid)
   \<and> Pubkey_SelfSignature pk =
     find (\<lambda>s. packet_SignatureType (Signature.SigType s) = SigTypePositiveCert
              \<or> packet_SignatureType (Signature.SigType s) = 0x19)
       (Pubkey.Signatures pk)"
proof -
  have "UserId_SelfSignature_loop sigs =
      find (\<lambda>s. packet_SignatureType (Signature.SigType s) = SigTypePositiveCert) sigs" for sigs
    by (induction sigs) auto
  moreover have "Pubkey_SelfSignature_loop sigs =
      find (\<lambda>s. packet_SignatureType (Signature.SigType s) = SigTypePositiveCert
              \<or> packet_SignatureType (Signature.SigType s) = 0x19) sigs" for sigs
    by (induction sigs) auto
  ultimately show ?thesis
    by (simp add: UserId_SelfSignature_def Pubkey_SelfSignature_def)
qed

subsection \<open>Image extraction\<close>

lemma GetJpegData_loop_filter:
  "GetJpegData_loop subpackets result =
     Inr (result @ map (\<lambda>sp. drop 16 (packet_OpaqueSubpacket.Contents sp))
       (filter (\<lambda>sp. SubType sp = 1 \<and> 16 < length (packet_OpaqueSubpacket.Contents sp))
          subpackets))"
  by (induction subpackets arbitrary: result)
    (auto simp: slice_from_def ImageSubType_def ImageSubOffset_def)

text \<open>
  Claim C8. \<^verbatim>\<open>GetJpegData\<close> returns, in order, one buffer for each subpacket
  whose type is the image type 1 and whose content is longer than the offset
  16, the buffer being the content after the first 16 bytes; any other
  subpacket (an image subpacket of at most 16 bytes among them) contributes
  nothing. When the opaque packet or its subpackets cannot be decoded the
  result is empty. The call never panics and has no error result.
\<close>

theorem GetJpegData_images:
  "UserAttribute_GetJpegData L uat =
     Inr (case OpaqueReader_Next L (UserAttribute.Packet uat) of
            Inl err \<Rightarrow> []
          | Inr op \<Rightarrow>
              (case OpaqueSubpackets L (packet_OpaquePacket.Contents op) of
                 Inl err \<Rightarrow> []
               | Inr subpackets \<Rightarrow>
                   map (\<lambda>sp. drop 16 (packet_OpaqueSubpacket.Contents sp))
                     (filter (\<lambda>sp. SubType sp = 1
                                \<and> 16 < length (packet_OpaqueSubpacket.Contents sp))
                        subpackets)))"
  by (simp add: UserAttribute_GetJpegData_def UserAttribute_GetPacket_def
      UserAttribute_GetOpaquePacket_def GetJpegData_loop_filter split: sum.splits)

subsection \<open>Reading back a stored packet\<close>

lemma Subkey_GetPublicKey_no_result: "Subkey_GetPublicKey L subkey = Some r \<Longrightarrow> False"
proof (rule Subkey_GetPublicKey.raw_induct [where P = "\<lambda>_ _ _. False"])
  fix GetPublicKey :: "packet_lib \<Rightarrow> Subkey \<Rightarrow> (panic + (packet_PublicKey \<times> error option)) option"
  fix L subkey r
    and k :: "panic + (packet_PublicKey \<times> error option)
                \<Rightarrow> (panic + (packet_PublicKey \<times> error option)) option"
  assume IH: "\<And>L subkey r. GetPublicKey L subkey = Some r \<Longrightarrow> False"
  assume "Option.bind (GetPublicKey L subkey) k = Some r"
  then obtain inner where "GetPublicKey L subkey = Some inner"
    by (auto simp: bind_eq_Some_conv)
  then show False by (rule IH)
qed

lemma Subkey_GetPublicKey_diverges: "Subkey_GetPublicKey L subkey = None"
  using Subkey_GetPublicKey_no_result [of L subkey]
  by (cases "Subkey_GetPublicKey L subkey") auto

text \<open>
  The sibling path: a packet stored by \<^verbatim>\<open>Pubkey.SetPacket\<close> is read back by
  \<^verbatim>\<open>Pubkey.GetPacket\<close> from the Pubkey's own \<^verbatim>\<open>Packet\<close> field, so with a library
  whose \<^verbatim>\<open>Read\<close> inverts \<^verbatim>\<open>Serialize\<close> up to re-serialization it serializes to the
  bytes of the packet that was set.
\<close>

lemma Pubkey_GetPacket_SetPacket:
  assumes set: "Pubkey_SetPacket L pubkey p = (None, pubkey')"
    and codec: "\<And>pk buf. PublicKey_Serialize L pk = Inr buf \<Longrightarrow>
       \<exists>pk'. Read L buf = (Some (PublicKeyPacket pk'), None) \<and> PublicKey_Serialize L pk' = Inr buf"
  shows "\<exists>pk pk' buf. p = PublicKeyPacket pk \<and> PublicKey_Serialize L pk = Inr buf
           \<and> Pubkey_GetPacket L pubkey' = Inr (PublicKeyPacket pk', None)
           \<and> PublicKey_Serialize L pk' = Inr buf"
proof -
  from set obtain pk buf where p: "p = PublicKeyPacket pk"
    and ser: "PublicKey_Serialize L pk = Inr buf" and stored: "Pubkey.Packet pubkey' = buf"
    by (cases p)
      (auto simp: Pubkey_SetPacket_def Pubkey_SetPublicKey_def Let_def
        split: sum.splits if_splits)
  from codec [OF ser] obtain pk' where rd: "Read L buf = (Some (PublicKeyPacket pk'), None)"
    and ser': "PublicKey_Serialize L pk' = Inr buf" by blast
  from rd stored have "Pubkey_GetPacket L pubkey' = Inr (PublicKeyPacket pk', None)"
    by (simp add: Pubkey_GetPacket_def Pubkey_GetPublicKey_def)
  with p ser ser' show ?thesis by blast
qed

text \<open>
  Claim C2 fails on the code for the Subkey and the UserId. After any
  \<^verbatim>\<open>Subkey.SetPacket\<close>, \<^verbatim>\<open>Subkey.GetPacket\<close> does not return: it calls
  \<^verbatim>\<open>GetPublicKey\<close>, which calls \<^verbatim>\<open>GetPacket\<close> again instead of reading
  \<^verbatim>\<open>subkey.Packet\<close>. And what \<^verbatim>\<open>UserId.GetPacket\<close> returns does not depend on the
  packet set on the UserId: it reads \<^verbatim>\<open>pubkey.Packet\<close>, not \<^verbatim>\<open>uid.Packet\<close>.
\<close>

theorem GetPacket_ignores_stored_packet:
  "Subkey_GetPacket L (snd (Subkey_SetPacket L subkey p)) = None
   \<and> UserId_GetPacket L pubkey (snd (UserId_SetPacket L uid p)) = UserId_GetPacket L pubkey uid"
  by (simp add: Subkey_GetPacket_def Subkey_GetPublicKey_diverges UserId_GetPacket_def
      UserId_GetUserId_def)

subsection \<open>Merging\<close>


























lemma map_ident_merge_into:
  assumes "\<And>u ss. ident (with_sigs u ss) = ident u"
  shows "map ident (map (\<lambda>u. if ident u = k then with_sigs u (f u) else u) acc) = map ident acc"
  by (induction acc) (simp_all add: assms)

lemma distinct_add_child:
  assumes id: "\<And>u ss. ident (with_sigs u ss) = ident u"
    and d: "distinct (map ident acc)"
  shows "distinct (map ident (add_child ident sigs with_sigs acc v))"
proof (cases "ident v \<in> set (map ident acc)")
  case True
  then have "add_child ident sigs with_sigs acc v =
      map (\<lambda>u. if ident u = ident v
                 then with_sigs u (merge_Signatures (sigs u) (sigs v)) else u) acc"
    by (simp add: add_child_def)
  then have "map ident (add_child ident sigs with_sigs acc v) = map ident acc"
    by (simp only: map_ident_merge_into [of ident with_sigs, OF id])
  with d show ?thesis by simp
next
  case False
  with d show ?thesis by (simp add: add_child_def)
qed

lemma distinct_merge_children:
  assumes id: "\<And>u ss. ident (with_sigs u ss) = ident u"
  shows "distinct (map ident xs) \<Longrightarrow> distinct (map ident (merge_children ident sigs with_sigs xs ys))"
  unfolding merge_children_def
proof (induction ys arbitrary: xs)
  case Nil
  then show ?case by simp
next
  case (Cons y ys)
  from Cons.prems have "distinct (map ident (add_child ident sigs with_sigs xs y))"
    by (rule distinct_add_child [of ident with_sigs, OF id])
  then show ?case by (simp add: Cons.IH)
qed

text \<open>
  Pairwise distinct identities among siblings are kept by a merge.
\<close>

lemma merge_distinct_identities:
  assumes "distinct_identities A" and "merge P A B = Inr M"
  shows "distinct_identities M"
proof -
  have u: "UserId.ScopedDigest \<circ> resolve_UserId P = UserId.ScopedDigest"
    by (simp add: fun_eq_iff resolve_UserId_def)
  have a: "UserAttribute.ScopedDigest \<circ> resolve_UserAttribute P = UserAttribute.ScopedDigest"
    by (simp add: fun_eq_iff resolve_UserAttribute_def)
  have k: "Subkey.RFingerprint \<circ> resolve_Subkey P = Subkey.RFingerprint"
    by (simp add: fun_eq_iff resolve_Subkey_def)
  from assms(1) have
    "distinct (map UserId.ScopedDigest (merge_UserIds (UserIds A) (UserIds B)))"
    "distinct (map UserAttribute.ScopedDigest
        (merge_UserAttributes (UserAttributes A) (UserAttributes B)))"
    "distinct (map Subkey.RFingerprint (merge_Subkeys (Subkeys A) (Subkeys B)))"
    unfolding distinct_identities_def merge_UserIds_def merge_UserAttributes_def merge_Subkeys_def
    by (simp_all add: distinct_merge_children)
  with assms(2) show ?thesis
    by (auto simp: merge_def distinct_identities_def resolve_Pubkey_def u a k split: if_splits)
qed




end
